theory Spec2Isabelle
  imports Main "HOL-Library.Word"
begin

section \<open>Machine integers and errors\<close>

type_synonym int64_t = "64 word"

text \<open>
  Failures of the C++ code are values: \<open>assert(false)\<close> in a build with assertions
  aborts the process, a \<open>throw\<close> carries the exception's message, and calling an empty
  \<open>std::function\<close> throws \<open>std::bad_function_call\<close>.
\<close>

datatype error =
    AssertionFailure
  | JoynrRuntimeException string

section \<open>SubscriptionUtil (src/cpp/common/SubscriptionUtil.cpp)\<close>

text \<open>
  Modelled from the spec: the three QoS classes are declared in headers that are not among
  the sources. The spec lists their fields, \<open>OnChangeSubscriptionQos{minInterval}\<close>,
  \<open>OnChangeWithKeepAliveSubscriptionQos{minInterval, maxInterval, alertAfterInterval}\<close> and
  \<open>PeriodicSubscriptionQos{period, alertAfterInterval}\<close>; the source reads them through
  \<open>getMinInterval()\<close>, \<open>getMaxInterval()\<close>, \<open>getAlertAfterInterval()\<close> and
  \<open>getPeriod()\<close>, each an \<open>int64_t\<close>. The keep-alive class extends the on-change class.
\<close>

record OnChangeSubscriptionQos =
  minInterval :: int64_t

record OnChangeWithKeepAliveSubscriptionQos = OnChangeSubscriptionQos +
  maxInterval :: int64_t
  alertAfterInterval :: int64_t

record PeriodicSubscriptionQos =
  period :: int64_t
  periodicAlertAfterInterval :: int64_t

text \<open>
  A \<open>Variant\<close> holds a value of one type; \<open>qos.is<T>()\<close> asks for exactly that type.
  \<open>VariantOther\<close> stands for a Variant holding a value of any type but the three.
\<close>

datatype Variant =
    VariantOnChangeWithKeepAlive OnChangeWithKeepAliveSubscriptionQos
  | VariantOnChange OnChangeSubscriptionQos
  | VariantPeriodic PeriodicSubscriptionQos
  | VariantOther

text \<open>
  A \<open>const SubscriptionQos&\<close> by its dynamic type; \<open>QosOther\<close> is the base class itself
  or any subclass outside the three.
\<close>

datatype SubscriptionQos =
    QosOnChangeWithKeepAlive OnChangeWithKeepAliveSubscriptionQos
  | QosOnChange OnChangeSubscriptionQos
  | QosPeriodic PeriodicSubscriptionQos
  | QosOther

text \<open>\<open>bool SubscriptionUtil::isOnChangeSubscription(const Variant& qos)\<close>\<close>

fun isOnChangeSubscription :: "Variant \<Rightarrow> bool" where
  "isOnChangeSubscription (VariantOnChangeWithKeepAlive q) = True"
| "isOnChangeSubscription (VariantOnChange q) = True"
| "isOnChangeSubscription _ = False"

text \<open>\<open>int64_t SubscriptionUtil::getAlertInterval(const Variant& qos)\<close>\<close>

fun getAlertInterval :: "Variant \<Rightarrow> int64_t" where
  "getAlertInterval (VariantOnChangeWithKeepAlive q) = alertAfterInterval q"
| "getAlertInterval (VariantPeriodic q) = periodicAlertAfterInterval q"
| "getAlertInterval _ = - 1"

text \<open>\<open>int64_t SubscriptionUtil::getMinInterval(const Variant& qos)\<close>\<close>

fun getMinInterval :: "Variant \<Rightarrow> int64_t" where
  "getMinInterval (VariantOnChangeWithKeepAlive q) = minInterval q"
| "getMinInterval (VariantOnChange q) = minInterval q"
| "getMinInterval _ = - 1"

text \<open>\<open>int64_t SubscriptionUtil::getPeriodicPublicationInterval(const Variant& qos)\<close>\<close>

fun getPeriodicPublicationInterval :: "Variant \<Rightarrow> int64_t" where
  "getPeriodicPublicationInterval (VariantOnChangeWithKeepAlive q) = maxInterval q"
| "getPeriodicPublicationInterval (VariantPeriodic q) = period q"
| "getPeriodicPublicationInterval _ = - 1"

text \<open>
  \<open>dynamic_cast\<close> to a pointer of each class: it succeeds for the class and its
  subclasses, so a keep-alive object is also an on-change object (seen through the base
  class's fields).
\<close>

fun dynamic_cast_OnChangeWithKeepAlive ::
  "SubscriptionQos \<Rightarrow> OnChangeWithKeepAliveSubscriptionQos option" where
  "dynamic_cast_OnChangeWithKeepAlive (QosOnChangeWithKeepAlive q) = Some q"
| "dynamic_cast_OnChangeWithKeepAlive _ = None"

fun dynamic_cast_OnChange :: "SubscriptionQos \<Rightarrow> OnChangeSubscriptionQos option" where
  "dynamic_cast_OnChange (QosOnChangeWithKeepAlive q) =
     Some (OnChangeSubscriptionQos.truncate q)"
| "dynamic_cast_OnChange (QosOnChange q) = Some q"
| "dynamic_cast_OnChange _ = None"

fun dynamic_cast_Periodic :: "SubscriptionQos \<Rightarrow> PeriodicSubscriptionQos option" where
  "dynamic_cast_Periodic (QosPeriodic q) = Some q"
| "dynamic_cast_Periodic _ = None"

definition unknownSubscriptionQos :: string where
  "unknownSubscriptionQos =
     ''Exception in SubscriptionUtil: reference to unknown SubscriptionQos has been sent''"

text \<open>
  \<open>Variant SubscriptionUtil::getVariant(const SubscriptionQos& qos)\<close>. The first
  argument says whether the build defines \<open>NDEBUG\<close>: without it \<open>assert(false)\<close> aborts
  before the \<open>throw\<close> is reached.
\<close>

definition getVariant :: "bool \<Rightarrow> SubscriptionQos \<Rightarrow> error + Variant" where
  "getVariant ndebug qos =
     (case dynamic_cast_OnChangeWithKeepAlive qos of
        Some q \<Rightarrow> Inr (VariantOnChangeWithKeepAlive q)
      | None \<Rightarrow>
          (case dynamic_cast_OnChange qos of
             Some q \<Rightarrow> Inr (VariantOnChange q)
           | None \<Rightarrow>
               (case dynamic_cast_Periodic qos of
                  Some q \<Rightarrow> Inr (VariantPeriodic q)
                | None \<Rightarrow>
                    (if ndebug then Inl (JoynrRuntimeException unknownSubscriptionQos)
                     else Inl AssertionFailure))))"

section \<open>MulticastReceiverDirectory (src/cpp/libjoynr/include/joynr/MulticastReceiverDirectory.h)\<close>

text \<open>
  The header declares the class and its one data member,
  \<open>std::unordered_map<std::string, std::unordered_set<std::string>> multicastReceivers\<close>.
\<close>

record MulticastReceiverDirectory =
  multicastReceivers :: "string \<rightharpoonup> string set"

text \<open>
  Modelled from the spec: the member functions are defined in
  MulticastReceiverDirectory.cpp, which is not among the sources.
  \<open>register(multicastId, receiverId)\<close>: ensures membership; idempotent.
\<close>

definition registerMulticastReceiver ::
  "string \<Rightarrow> string \<Rightarrow> MulticastReceiverDirectory \<Rightarrow> MulticastReceiverDirectory" where
  "registerMulticastReceiver multicastId receiverId d =
     d\<lparr>multicastReceivers := (multicastReceivers d)
          (multicastId \<mapsto>
             insert receiverId
               (case multicastReceivers d multicastId of None \<Rightarrow> {} | Some rs \<Rightarrow> rs))\<rparr>"

text \<open>
  Modelled from the spec: \<open>unregister(multicastId, receiverId) \<rightarrow> bool\<close>: removes
  membership; returns whether a change occurred. If the set becomes empty, drop the key.
\<close>

definition unregisterMulticastReceiver ::
  "string \<Rightarrow> string \<Rightarrow> MulticastReceiverDirectory \<Rightarrow> bool \<times> MulticastReceiverDirectory" where
  "unregisterMulticastReceiver multicastId receiverId d =
     (case multicastReceivers d multicastId of
        None \<Rightarrow> (False, d)
      | Some rs \<Rightarrow>
          if receiverId \<in> rs then
            (if rs - {receiverId} = {}
             then (True, d\<lparr>multicastReceivers := (multicastReceivers d)(multicastId := None)\<rparr>)
             else (True, d\<lparr>multicastReceivers :=
                            (multicastReceivers d)(multicastId \<mapsto> rs - {receiverId})\<rparr>))
          else (False, d))"

text \<open>
  Modelled from the spec: \<open>getReceivers(multicastId) \<rightarrow> set\<close>: returns a snapshot (copy);
  the empty set if the key is absent.
\<close>

definition getReceivers :: "string \<Rightarrow> MulticastReceiverDirectory \<Rightarrow> string set" where
  "getReceivers multicastId d =
     (case multicastReceivers d multicastId of None \<Rightarrow> {} | Some rs \<Rightarrow> rs)"

section \<open>Discovery data and the interfaces the components consume\<close>

text \<open>
  Modelled from the spec: \<open>RequestStatus\<close> and \<open>RequestStatusCode\<close> are declared in
  headers that are not among the sources. A status carries a code (\<open>OK | ERROR\<close>) and a
  description list; \<open>setCode\<close> stores the code and \<open>addDescription\<close> appends one
  description.
\<close>

datatype RequestStatusCode = OK | ERROR

record RequestStatus =
  code :: RequestStatusCode
  description :: "string list"

definition setCode :: "RequestStatusCode \<Rightarrow> RequestStatus \<Rightarrow> RequestStatus" where
  "setCode c st = st\<lparr>code := c\<rparr>"

definition addDescription :: "string \<Rightarrow> RequestStatus \<Rightarrow> RequestStatus" where
  "addDescription d st = st\<lparr>description := description st @ [d]\<rparr>"

text \<open>
  Modelled from the spec: the enumeration of transport tags is generated code that is not
  among the sources. The aggregator names two of its values, \<open>JOYNR\<close> and \<open>IN_PROCESS\<close>;
  \<open>OTHER_MIDDLEWARE\<close> stands for the remaining ones.
\<close>

datatype CommunicationMiddleware = JOYNR | IN_PROCESS | OTHER_MIDDLEWARE

text \<open>
  Modelled from the spec: \<open>ProviderQos\<close> and \<open>DiscoveryEntry\<close> are generated classes that
  are not among the sources. The entry has the five fields the aggregator's constructor
  passes (domain, interface name, participant id, provider QoS, connections), named here
  by their getters; \<open>DiscoveryEntryWithMetaInfo\<close> is the entry plus \<open>isLocal\<close>.
\<close>

datatype ProviderScope = GLOBAL | LOCAL

record ProviderQos =
  customParameters :: "(string \<times> string) list"
  priority :: int64_t
  scope :: ProviderScope
  supportsOnChangeSubscriptions :: bool

record DiscoveryEntry =
  getDomain :: string
  getInterfaceName :: string
  getParticipantId :: string
  getQos :: ProviderQos
  getConnections :: "CommunicationMiddleware list"

record DiscoveryEntryWithMetaInfo = DiscoveryEntry +
  getIsLocal :: bool

text \<open>
  Modelled from the spec: \<open>DiscoveryEntry::createStd\<close> converts the Qt flavour of the entry
  into the std flavour; both carry the same fields, and one record stands for both.
\<close>

definition createStd :: "DiscoveryEntry \<Rightarrow> DiscoveryEntry" where
  "createStd e = e"

text \<open>
  Modelled from the spec: \<open>RequestCallerDirectory: containsRequestCaller(participantId) \<rightarrow> bool\<close>.
  The directory is the set of participant ids that have a request caller registered.
\<close>

type_synonym IRequestCallerDirectory = "string set"

definition containsRequestCaller :: "IRequestCallerDirectory \<Rightarrow> string \<Rightarrow> bool" where
  "containsRequestCaller dir participantId = (participantId \<in> dir)"

text \<open>
  \<open>SystemServicesSettings\<close> by the three getters the constructor calls (\<open>getDomain()\<close> is
  the field \<open>settingsDomain\<close>), and the constants of other headers the constructor reads:
  the two interface names and the default-constructed \<open>ProviderQos()\<close>.
\<close>

record SystemServicesSettings =
  settingsDomain :: string
  getCcRoutingProviderParticipantId :: string
  getCcDiscoveryProviderParticipantId :: string

record SystemInterfaces =
  IRouting_INTERFACE_NAME :: string
  IDiscovery_INTERFACE_NAME :: string
  ProviderQos_default :: ProviderQos

text \<open>
  The remote discovery proxy, \<open>joynr::system::IDiscoverySync\<close>, is an interface: its four
  virtual functions are given as a record of functions over the state \<open>'p\<close> of the object
  behind the pointer. Each takes the out-parameters as they are before the call and returns
  them as they are after it. \<open>'q\<close> is the discovery QoS, which the aggregator only passes on.
\<close>

record ('p, 'q) IDiscoverySync =
  proxy_add :: "RequestStatus \<Rightarrow> DiscoveryEntry \<Rightarrow> 'p \<Rightarrow> RequestStatus \<times> 'p"
  proxy_lookup ::
    "RequestStatus \<Rightarrow> DiscoveryEntry list \<Rightarrow> string \<Rightarrow> string \<Rightarrow> 'q \<Rightarrow> 'p
       \<Rightarrow> (RequestStatus \<times> DiscoveryEntry list) \<times> 'p"
  proxy_lookup_participantId ::
    "RequestStatus \<Rightarrow> DiscoveryEntry \<Rightarrow> string \<Rightarrow> 'p \<Rightarrow> (RequestStatus \<times> DiscoveryEntry) \<times> 'p"
  proxy_remove :: "RequestStatus \<Rightarrow> string \<Rightarrow> 'p \<Rightarrow> RequestStatus \<times> 'p"

text \<open>The calls the aggregator makes on the remote proxy, in order.\<close>

datatype 'q remote_call =
    Remote_add DiscoveryEntry
  | Remote_lookup string string 'q
  | Remote_lookup_participantId string
  | Remote_remove string

section \<open>ProxyBuilder (src/cpp/libjoynr/include/joynr/ProxyBuilder.h)\<close>

text \<open>
  Modelled from the spec: \<open>MessagingQos\<close>, \<open>DiscoveryQos\<close>, \<open>types::Version\<close> and the
  address class are declared in headers that are not among the sources. The builder stores
  them and hands them on; \<open>MessagingQos{ttlMs}\<close> and the two \<open>DiscoveryQos\<close> fields the
  builder's constructor sets are kept. The template parameter \<open>T\<close> is known by
  \<open>INTERFACE_NAME\<close>, \<open>MAJOR_VERSION\<close> and \<open>MINOR_VERSION\<close>.
\<close>

type_synonym Address = string

record MessagingQos =
  ttl :: "64 word"

record DiscoveryQos =
  discoveryTimeoutMs :: int64_t
  retryIntervalMs :: int64_t

record Version =
  majorVersion :: "32 word"
  minorVersion :: "32 word"

record ProxyType =
  INTERFACE_NAME :: string
  MAJOR_VERSION :: "32 word"
  MINOR_VERSION :: "32 word"

text \<open>
  Modelled from the spec: \<open>ArbitratorFactory\<close> and \<open>Arbitrator\<close> are not among the
  sources. An arbitrator is constructed from
  \<open>(domain, interfaceName, interfaceVersion, discoveryProxy, discoveryQos)\<close>; the weak
  pointer to the discovery proxy is a handle.
\<close>

record Arbitrator =
  arbitratorDomain :: string
  arbitratorInterfaceName :: string
  arbitratorInterfaceVersion :: Version
  arbitratorDiscoveryProxy :: nat
  arbitratorDiscoveryQos :: DiscoveryQos

definition createArbitrator ::
  "string \<Rightarrow> string \<Rightarrow> Version \<Rightarrow> nat \<Rightarrow> DiscoveryQos \<Rightarrow> Arbitrator" where
  "createArbitrator d i v p q =
     \<lparr>arbitratorDomain = d, arbitratorInterfaceName = i, arbitratorInterfaceVersion = v,
      arbitratorDiscoveryProxy = p, arbitratorDiscoveryQos = q\<rparr>"

text \<open>
  Modelled from the spec: \<open>ProxyFactory\<close> and the proxy classes are not among the sources.
  \<open>createProxy<T>(runtime, domain, messagingQos) \<rightarrow> proxy\<close> binds a new proxy to the
  runtime; the factory chooses the proxy's participant id (the first argument here);
  \<open>handleArbitrationFinished(entry)\<close> installs the arbitrated provider into the proxy.
\<close>

record Proxy =
  getProxyParticipantId :: string
  proxyDomain :: string
  proxyMessagingQos :: MessagingQos
  arbitrationResult :: "DiscoveryEntryWithMetaInfo option"

definition createProxy :: "string \<Rightarrow> string \<Rightarrow> MessagingQos \<Rightarrow> Proxy" where
  "createProxy newParticipantId d q =
     \<lparr>getProxyParticipantId = newParticipantId, proxyDomain = d, proxyMessagingQos = q,
      arbitrationResult = None\<rparr>"

definition handleArbitrationFinished :: "DiscoveryEntryWithMetaInfo \<Rightarrow> Proxy \<Rightarrow> Proxy" where
  "handleArbitrationFinished discoverEntry proxy =
     proxy\<lparr>arbitrationResult := Some discoverEntry\<rparr>"

text \<open>
  What the builder does to its caller and to its collaborators, in order: the caller's two
  callbacks, the arbitrator factory and the arbitrators, the proxy factory, the new proxy
  and the message router. \<open>Bad_function_call\<close> is the exception of calling an empty
  \<open>std::function\<close>; \<open>Terminate\<close> is \<open>std::terminate\<close>, which an exception leaving a
  \<open>noexcept\<close> function calls.
\<close>

datatype event =
    Caller_onError string
  | Caller_onSuccess Proxy
  | Bad_function_call
  | Terminate
  | ArbitratorFactory_createArbitrator Arbitrator
  | Arbitrator_startArbitration Arbitrator
  | Arbitrator_stopArbitration Arbitrator
  | ProxyFactory_createProxy string MessagingQos
  | Proxy_handleArbitrationFinished DiscoveryEntryWithMetaInfo
  | MessageRouter_setToKnown string
  | MessageRouter_addNextHop string Address bool int64_t bool

text \<open>
  The two \<open>std::function\<close> arguments of \<open>buildAsync\<close>: each field says whether the function
  object holds a target (the source tests \<open>if (onError)\<close> in one place).
\<close>

record Callbacks =
  onSuccess :: bool
  onError :: bool

text \<open>
  The builder's data members that \<open>buildAsync\<close> and \<open>stop\<close> read or write. \<open>runtime\<close> is
  the weak pointer by what \<open>runtime.lock()\<close> gives: \<open>Some\<close> runtime, or \<open>None\<close> for
  \<open>nullptr\<close> once the runtime is destroyed. The builder is owned by a \<open>std::shared_ptr\<close>,
  as \<open>shared_from_this()\<close> requires.
\<close>

datatype JoynrRuntimeImpl = JoynrRuntimeImpl

record ProxyBuilder =
  runtime :: "JoynrRuntimeImpl option"
  domain :: string
  messagingQos :: MessagingQos
  discoveryProxy :: nat
  arbitrators :: "Arbitrator list"
  shuttingDown :: bool
  dispatcherAddress :: Address
  discoveryQos :: DiscoveryQos

definition runtimeAlreadyDestroyed :: string where
  "runtimeAlreadyDestroyed = ''required runtime has been already destroyed''"

text \<open>\<open>void stop()\<close>: the events and the builder after the call.\<close>

definition stop :: "ProxyBuilder \<Rightarrow> event list \<times> ProxyBuilder" where
  "stop b =
     (map Arbitrator_stopArbitration (arbitrators b),
      b\<lparr>shuttingDown := True, arbitrators := []\<rparr>)"

text \<open>
  The unguarded call \<open>onError(exception)\<close>, as the lambda \<open>arbitrationSucceeds\<close> makes it
  before each early \<open>return\<close>.
\<close>

definition call_onError :: "Callbacks \<Rightarrow> string \<Rightarrow> event list" where
  "call_onError cb message =
     (if onError cb then [Caller_onError message] else [Bad_function_call])"

text \<open>
  The lambda \<open>arbitrationSucceeds\<close>, which \<open>buildAsync\<close> hands to the arbitrator.
  \<open>thisWeakPtr\<close> is what \<open>thisWeakPtr.lock()\<close> finds when the arbitrator calls it: the
  builder as it is then, or nothing. The result is the events up to and including the call
  of \<open>addNextHop\<close>, and the proxy that the two \<open>addNextHop\<close> callbacks hold.
\<close>

definition arbitrationSucceeds ::
  "Callbacks \<Rightarrow> ProxyBuilder option \<Rightarrow> string \<Rightarrow> DiscoveryEntryWithMetaInfo
     \<Rightarrow> event list \<times> Proxy option" where
  "arbitrationSucceeds cb thisWeakPtr newParticipantId discoverEntry =
     (case thisWeakPtr of
        None \<Rightarrow> (call_onError cb runtimeAlreadyDestroyed, None)
      | Some b \<Rightarrow>
          (case runtime b of
             None \<Rightarrow> (call_onError cb runtimeAlreadyDestroyed, None)
           | Some runtimeSharedPtr \<Rightarrow>
               if getParticipantId discoverEntry = [] then
                 (call_onError cb
                    ''Arbitration was set to successfull by arbitrator but ParticipantId is empty'',
                  None)
               else
                 (let proxy = handleArbitrationFinished discoverEntry
                                (createProxy newParticipantId (domain b) (messagingQos b));
                      isGloballyVisible = (\<not> getIsLocal discoverEntry);
                      expiryDateMs = 0x7FFFFFFFFFFFFFFF;
                      isSticky = False
                  in ([ProxyFactory_createProxy (domain b) (messagingQos b),
                       Proxy_handleArbitrationFinished discoverEntry,
                       MessageRouter_setToKnown (getParticipantId discoverEntry),
                       MessageRouter_addNextHop (getProxyParticipantId proxy)
                         (dispatcherAddress b) isGloballyVisible expiryDateMs isSticky],
                      Some proxy))))"

text \<open>The two callbacks handed to \<open>addNextHop\<close>.\<close>

definition onSuccessAddNextHop :: "Callbacks \<Rightarrow> Proxy \<Rightarrow> event list" where
  "onSuccessAddNextHop cb proxy =
     (if onSuccess cb then [Caller_onSuccess proxy] else [Bad_function_call])"

definition onErrorAddNextHop :: "Callbacks \<Rightarrow> string \<Rightarrow> event list" where
  "onErrorAddNextHop cb providerRuntimeExceptionMessage =
     (if onError cb
      then [Caller_onError
              (''Proxy could not be added to parent router: '' @ providerRuntimeExceptionMessage)]
      else [])"

text \<open>
  What the message router does with the two callbacks: it reports success, or failure with
  a \<open>ProviderRuntimeException\<close> of some message, or it has not answered.
\<close>

datatype addNextHopReply = NextHopAdded | NextHopFailed string | NextHopPending

definition addNextHopReplies :: "Callbacks \<Rightarrow> Proxy \<Rightarrow> addNextHopReply \<Rightarrow> event list" where
  "addNextHopReplies cb proxy reply =
     (case reply of
        NextHopAdded \<Rightarrow> onSuccessAddNextHop cb proxy
      | NextHopFailed message \<Rightarrow> onErrorAddNextHop cb message
      | NextHopPending \<Rightarrow> [])"

text \<open>
  All events of one successful arbitration: the lambda runs, and the router answers the
  \<open>addNextHop\<close> call if the lambda made one.
\<close>

definition arbitrationSucceedsThenRouter ::
  "Callbacks \<Rightarrow> ProxyBuilder option \<Rightarrow> string \<Rightarrow> DiscoveryEntryWithMetaInfo
     \<Rightarrow> addNextHopReply \<Rightarrow> event list" where
  "arbitrationSucceedsThenRouter cb thisWeakPtr newParticipantId discoverEntry reply =
     (case arbitrationSucceeds cb thisWeakPtr newParticipantId discoverEntry of
        (events, None) \<Rightarrow> events
      | (events, Some proxy) \<Rightarrow> events @ addNextHopReplies cb proxy reply)"

text \<open>
  \<open>void buildAsync(onSuccess, onError) noexcept\<close>: the events of the call itself and the
  builder after it (\<open>None\<close> when the process was terminated). The arbitrator it starts keeps
  \<open>arbitrationSucceeds\<close> and \<open>onError\<close> and calls one of them later.
\<close>

definition buildAsync ::
  "ProxyType \<Rightarrow> Callbacks \<Rightarrow> ProxyBuilder \<Rightarrow> event list \<times> ProxyBuilder option" where
  "buildAsync T cb b =
     (if (runtime b = None \<or> shuttingDown b) \<and> \<not> onError cb
      then ([Bad_function_call, Terminate], None)
      else
        (let reported =
               (if runtime b = None \<or> shuttingDown b
                then [Caller_onError runtimeAlreadyDestroyed] else []);
             interfaceVersion =
               \<lparr>majorVersion = MAJOR_VERSION T, minorVersion = MINOR_VERSION T\<rparr>;
             arbitrator =
               createArbitrator (domain b) (INTERFACE_NAME T) interfaceVersion
                 (discoveryProxy b) (discoveryQos b)
         in (reported @
               [ArbitratorFactory_createArbitrator arbitrator,
                Arbitrator_startArbitration arbitrator],
             Some (b\<lparr>arbitrators := arbitrators b @ [arbitrator]\<rparr>))))"

text \<open>Values for the examples: a proxy type, a provider entry and a builder.\<close>

definition exampleProxyType :: ProxyType where
  "exampleProxyType =
     \<lparr>INTERFACE_NAME = ''system/Discovery'', MAJOR_VERSION = 0, MINOR_VERSION = 1\<rparr>"

definition exampleProvider :: DiscoveryEntryWithMetaInfo where
  "exampleProvider =
     \<lparr>getDomain = ''io.joynr'', getInterfaceName = ''system/Discovery'',
      getParticipantId = ''provider-1'',
      getQos = \<lparr>customParameters = [], priority = 1, scope = LOCAL,
                 supportsOnChangeSubscriptions = False\<rparr>,
      getConnections = [JOYNR], getIsLocal = True\<rparr>"

definition exampleBuilder :: ProxyBuilder where
  "exampleBuilder =
     \<lparr>runtime = Some JoynrRuntimeImpl, domain = ''io.joynr'', messagingQos = \<lparr>ttl = 5000\<rparr>,
      discoveryProxy = 0, arbitrators = [], shuttingDown = False,
      dispatcherAddress = ''dispatcher'',
      discoveryQos = \<lparr>discoveryTimeoutMs = 50, retryIntervalMs = 10\<rparr>\<rparr>"

section \<open>LocalDiscoveryAggregator (src/cpp/libjoynr/capabilities/LocalDiscoveryAggregator.cpp)\<close>

text \<open>
  The data members. \<open>discoveryProxy\<close> is the pointer: \<open>None\<close> is \<open>NULL\<close>, \<open>Some p\<close> points
  at a proxy object in state \<open>p\<close>. \<open>provisionedDiscoveryEntries\<close> is the \<open>QMap\<close>.
\<close>

record 'p LocalDiscoveryAggregator =
  discoveryProxy :: "'p option"
  hasOwnershipOfDiscoveryProxy :: bool
  requestCallerDirectory :: IRequestCallerDirectory
  provisionedDiscoveryEntries :: "string \<rightharpoonup> DiscoveryEntry"
  systemServicesSettings :: SystemServicesSettings

text \<open>
  What a member function leaves behind: the two out-parameters, the aggregator itself and
  the calls it made on the remote proxy.
\<close>

record ('p, 'q, 'r) returned =
  status :: RequestStatus
  result :: 'r
  self :: "'p LocalDiscoveryAggregator"
  remoteCalls :: "'q remote_call list"

text \<open>The constructor: two \<open>QMap::insert\<close> calls, the second replacing an equal key.\<close>

definition newLocalDiscoveryAggregator ::
  "IRequestCallerDirectory \<Rightarrow> SystemServicesSettings \<Rightarrow> SystemInterfaces
     \<Rightarrow> 'p LocalDiscoveryAggregator" where
  "newLocalDiscoveryAggregator dir settings ifs =
     (let connections = [JOYNR];
          routingProviderDiscoveryEntry =
            \<lparr>getDomain = settingsDomain settings,
             getInterfaceName = IRouting_INTERFACE_NAME ifs,
             getParticipantId = getCcRoutingProviderParticipantId settings,
             getQos = ProviderQos_default ifs,
             getConnections = connections\<rparr>;
          discoveryProviderDiscoveryEntry =
            \<lparr>getDomain = settingsDomain settings,
             getInterfaceName = IDiscovery_INTERFACE_NAME ifs,
             getParticipantId = getCcDiscoveryProviderParticipantId settings,
             getQos = ProviderQos_default ifs,
             getConnections = connections\<rparr>
      in \<lparr>discoveryProxy = None,
          hasOwnershipOfDiscoveryProxy = False,
          requestCallerDirectory = dir,
          provisionedDiscoveryEntries =
            (Map.empty
               (getParticipantId routingProviderDiscoveryEntry \<mapsto> routingProviderDiscoveryEntry))
               (getParticipantId discoveryProviderDiscoveryEntry \<mapsto>
                  discoveryProviderDiscoveryEntry),
          systemServicesSettings = settings\<rparr>)"

definition setDiscoveryProxy ::
  "'p \<Rightarrow> 'p LocalDiscoveryAggregator \<Rightarrow> 'p LocalDiscoveryAggregator" where
  "setDiscoveryProxy p agg =
     agg\<lparr>discoveryProxy := Some p, hasOwnershipOfDiscoveryProxy := True\<rparr>"

text \<open>The description every member function adds when the pointer is \<open>NULL\<close>.\<close>

definition discoveryProxyNotSet :: string where
  "discoveryProxyNotSet =
     ''LocalDiscoveryAggregator: discoveryProxy not set. Couldn't reach local capabilitites directory.''"

definition add ::
  "('p, 'q) IDiscoverySync \<Rightarrow> RequestStatus \<Rightarrow> DiscoveryEntry \<Rightarrow> 'p LocalDiscoveryAggregator
     \<Rightarrow> ('p, 'q, unit) returned" where
  "add I joynrInternalStatus discoveryEntry agg =
     (case discoveryProxy agg of
        None \<Rightarrow>
          \<lparr>status = addDescription discoveryProxyNotSet (setCode ERROR joynrInternalStatus),
           result = (), self = agg, remoteCalls = []\<rparr>
      | Some p \<Rightarrow>
          (case proxy_add I joynrInternalStatus discoveryEntry p of
             (st, p') \<Rightarrow>
               \<lparr>status = st, result = (), self = agg\<lparr>discoveryProxy := Some p'\<rparr>,
                remoteCalls = [Remote_add discoveryEntry]\<rparr>))"

definition checkForLocalAvailabilityAndAddInProcessConnection ::
  "'p LocalDiscoveryAggregator \<Rightarrow> DiscoveryEntry \<Rightarrow> DiscoveryEntry" where
  "checkForLocalAvailabilityAndAddInProcessConnection agg discoveryEntry =
     (if containsRequestCaller (requestCallerDirectory agg) (getParticipantId discoveryEntry)
      then discoveryEntry\<lparr>getConnections := IN_PROCESS # getConnections discoveryEntry\<rparr>
      else discoveryEntry)"

text \<open>\<open>lookup\<close> by domain and interface name.\<close>

definition lookup ::
  "('p, 'q) IDiscoverySync \<Rightarrow> RequestStatus \<Rightarrow> DiscoveryEntry list \<Rightarrow> string \<Rightarrow> string \<Rightarrow> 'q
     \<Rightarrow> 'p LocalDiscoveryAggregator \<Rightarrow> ('p, 'q, DiscoveryEntry list) returned" where
  "lookup I joynrInternalStatus res domain' interfaceName discoveryQos' agg =
     (case discoveryProxy agg of
        None \<Rightarrow>
          \<lparr>status = addDescription discoveryProxyNotSet (setCode ERROR joynrInternalStatus),
           result = res, self = agg, remoteCalls = []\<rparr>
      | Some p \<Rightarrow>
          (case proxy_lookup I joynrInternalStatus res domain' interfaceName discoveryQos' p of
             ((st, res'), p') \<Rightarrow>
               \<lparr>status = st,
                result = map (checkForLocalAvailabilityAndAddInProcessConnection agg) res',
                self = agg\<lparr>discoveryProxy := Some p'\<rparr>,
                remoteCalls = [Remote_lookup domain' interfaceName discoveryQos']\<rparr>))"

text \<open>\<open>lookup\<close> by participant id (the overload with a single entry as result).\<close>

definition lookup_participantId ::
  "('p, 'q) IDiscoverySync \<Rightarrow> RequestStatus \<Rightarrow> DiscoveryEntry \<Rightarrow> string
     \<Rightarrow> 'p LocalDiscoveryAggregator \<Rightarrow> ('p, 'q, DiscoveryEntry) returned" where
  "lookup_participantId I joynrInternalStatus res participantId agg =
     (case provisionedDiscoveryEntries agg participantId of
        Some e \<Rightarrow>
          \<lparr>status = setCode OK joynrInternalStatus,
           result = checkForLocalAvailabilityAndAddInProcessConnection agg (createStd e),
           self = agg, remoteCalls = []\<rparr>
      | None \<Rightarrow>
          (case discoveryProxy agg of
             None \<Rightarrow>
               \<lparr>status = addDescription discoveryProxyNotSet (setCode ERROR joynrInternalStatus),
                result = res, self = agg, remoteCalls = []\<rparr>
           | Some p \<Rightarrow>
               (case proxy_lookup_participantId I joynrInternalStatus res participantId p of
                  ((st, res'), p') \<Rightarrow>
                    \<lparr>status = st,
                     result = checkForLocalAvailabilityAndAddInProcessConnection agg res',
                     self = agg\<lparr>discoveryProxy := Some p'\<rparr>,
                     remoteCalls = [Remote_lookup_participantId participantId]\<rparr>)))"

definition remove ::
  "('p, 'q) IDiscoverySync \<Rightarrow> RequestStatus \<Rightarrow> string \<Rightarrow> 'p LocalDiscoveryAggregator
     \<Rightarrow> ('p, 'q, unit) returned" where
  "remove I joynrInternalStatus participantId agg =
     (case discoveryProxy agg of
        None \<Rightarrow>
          \<lparr>status = addDescription discoveryProxyNotSet (setCode ERROR joynrInternalStatus),
           result = (), self = agg, remoteCalls = []\<rparr>
      | Some p \<Rightarrow>
          (case proxy_remove I joynrInternalStatus participantId p of
             (st, p') \<Rightarrow>
               \<lparr>status = st, result = (), self = agg\<lparr>discoveryProxy := Some p'\<rparr>,
                remoteCalls = [Remote_remove participantId]\<rparr>))"

text \<open>
  Values for the examples: settings, a status, a provider entry, and a remote proxy that
  keeps the entries it was given in a list.
\<close>

definition exampleSettings :: SystemServicesSettings where
  "exampleSettings =
     \<lparr>settingsDomain = ''io.joynr.system'',
      getCcRoutingProviderParticipantId = ''cc.routing'',
      getCcDiscoveryProviderParticipantId = ''cc.discovery''\<rparr>"

definition exampleInterfaces :: SystemInterfaces where
  "exampleInterfaces =
     \<lparr>IRouting_INTERFACE_NAME = ''system/Routing'',
      IDiscovery_INTERFACE_NAME = ''system/Discovery'',
      ProviderQos_default =
        \<lparr>customParameters = [], priority = 0, scope = GLOBAL,
         supportsOnChangeSubscriptions = False\<rparr>\<rparr>"

definition exampleStatus :: RequestStatus where
  "exampleStatus = \<lparr>code = OK, description = []\<rparr>"

definition exampleEntry :: DiscoveryEntry where
  "exampleEntry =
     \<lparr>getDomain = ''Domain.A'', getInterfaceName = ''InterfaceName.A'',
      getParticipantId = ''ParticipantID.A'',
      getQos = \<lparr>customParameters = [], priority = 1, scope = LOCAL,
                 supportsOnChangeSubscriptions = False\<rparr>,
      getConnections = [JOYNR]\<rparr>"

definition exampleRemote :: "(DiscoveryEntry list, 'q) IDiscoverySync" where
  "exampleRemote =
     \<lparr>proxy_add = (\<lambda>st e p. (setCode OK st, p @ [e])),
      proxy_lookup = (\<lambda>st res d i q p.
        ((setCode OK st, filter (\<lambda>e. getDomain e = d \<and> getInterfaceName e = i) p), p)),
      proxy_lookup_participantId = (\<lambda>st res pid p.
        (case find (\<lambda>e. getParticipantId e = pid) p of
           None \<Rightarrow> ((setCode ERROR st, res), p)
         | Some e \<Rightarrow> ((setCode OK st, e), p))),
      proxy_remove = (\<lambda>st pid p. (setCode OK st, filter (\<lambda>e. getParticipantId e \<noteq> pid) p))\<rparr>"

text \<open>
  An aggregator as the constructor leaves it, and one with the example remote proxy
  installed; the request-caller directory knows the example provider and the two system
  services.
\<close>

definition freshAggregator :: "DiscoveryEntry list LocalDiscoveryAggregator" where
  "freshAggregator =
     newLocalDiscoveryAggregator {''ParticipantID.A'', ''cc.routing'', ''cc.discovery''}
       exampleSettings exampleInterfaces"

definition exampleAggregator :: "DiscoveryEntry list LocalDiscoveryAggregator" where
  "exampleAggregator = setDiscoveryProxy [exampleEntry] freshAggregator"

section \<open>Properties of SubscriptionUtil\<close>

text \<open>
  C3. On a Variant of one of the three known types the classifiers return the table:
  for OnChangeWithKeepAlive (minInterval, maxInterval, alertAfterInterval), for Periodic
  (-1, period, alertAfterInterval), for OnChange (minInterval, -1, -1), in the order
  (getMinInterval, getPeriodicPublicationInterval, getAlertInterval); and
  isOnChangeSubscription is true for OnChange and OnChangeWithKeepAlive and false for
  every other Variant.
\<close>

theorem classifier_table:
  "(getMinInterval (VariantOnChangeWithKeepAlive k),
    getPeriodicPublicationInterval (VariantOnChangeWithKeepAlive k),
    getAlertInterval (VariantOnChangeWithKeepAlive k))
     = (minInterval k, maxInterval k, alertAfterInterval k)
   \<and> (getMinInterval (VariantPeriodic p),
      getPeriodicPublicationInterval (VariantPeriodic p),
      getAlertInterval (VariantPeriodic p))
     = (- 1, period p, periodicAlertAfterInterval p)
   \<and> (getMinInterval (VariantOnChange c),
      getPeriodicPublicationInterval (VariantOnChange c),
      getAlertInterval (VariantOnChange c))
     = (minInterval c, - 1, - 1)
   \<and> isOnChangeSubscription v
     = ((\<exists>c. v = VariantOnChange c) \<or> (\<exists>k. v = VariantOnChangeWithKeepAlive k))"
  by (cases v) simp_all

text \<open>
  C4 as the claim states it fails: on a Variant that holds none of the three types each
  classifier returns its default (\<open>-1\<close>, or \<open>False\<close>) and raises nothing.
\<close>

theorem unknown_variant_gets_defaults:
  "getMinInterval VariantOther = - 1
   \<and> getPeriodicPublicationInterval VariantOther = - 1
   \<and> getAlertInterval VariantOther = - 1
   \<and> \<not> isOnChangeSubscription VariantOther"
  by simp

text \<open>
  C4, amended. The runtime error for an unknown SubscriptionQos belongs to \<open>getVariant\<close>:
  for a \<open>SubscriptionQos\<close> that is none of the three classes it throws a
  \<open>JoynrRuntimeException\<close> whose message contains "reference to unknown SubscriptionQos"
  (in a build with assertions \<open>assert(false)\<close> aborts first), it fails for no other
  argument, and it never produces a Variant of another type. The classifiers themselves
  never raise: on a Variant of another type they return \<open>-1\<close>, and
  \<open>isOnChangeSubscription\<close> returns \<open>False\<close>.
\<close>

theorem unknown_qos_raises_in_getVariant_only:
  "getVariant True QosOther =
     Inl (JoynrRuntimeException
            (''Exception in SubscriptionUtil: '' @ ''reference to unknown SubscriptionQos''
               @ '' has been sent''))
   \<and> getVariant False QosOther = Inl AssertionFailure
   \<and> isl (getVariant ndebug qos) = (qos = QosOther)
   \<and> getVariant ndebug qos \<noteq> Inr VariantOther
   \<and> (getMinInterval VariantOther, getPeriodicPublicationInterval VariantOther,
      getAlertInterval VariantOther, isOnChangeSubscription VariantOther)
     = (- 1, - 1, - 1, False)"
  by (cases qos) (simp_all add: getVariant_def unknownSubscriptionQos_def)

section \<open>Properties of MulticastReceiverDirectory\<close>

lemma unregister_removes:
  "receiverId \<notin> getReceivers multicastId
     (snd (unregisterMulticastReceiver multicastId receiverId d))"
  by (auto simp: getReceivers_def unregisterMulticastReceiver_def split: option.splits)

lemma unregister_reports_change:
  "receiverId \<in> getReceivers multicastId d
   \<Longrightarrow> fst (unregisterMulticastReceiver multicastId receiverId d)"
  by (auto simp: getReceivers_def unregisterMulticastReceiver_def split: option.splits)

lemma register_member:
  "receiverId \<in> getReceivers multicastId (registerMulticastReceiver multicastId receiverId d)"
  by (simp add: getReceivers_def registerMulticastReceiver_def)

text \<open>
  C9. Registration has set semantics. After one or more
  \<open>registerMulticastReceiver(m, r)\<close> calls \<open>r\<close> is a receiver of \<open>m\<close> and one
  \<open>unregisterMulticastReceiver(m, r)\<close> reports a change; after any number of
  registrations (none included) followed by one unregistration, \<open>r\<close> is not a member of
  \<open>getReceivers(m)\<close>.
\<close>

theorem unregister_after_registers:
  "receiverId \<in> getReceivers multicastId
       ((registerMulticastReceiver multicastId receiverId ^^ Suc n) d)
   \<and> fst (unregisterMulticastReceiver multicastId receiverId
          ((registerMulticastReceiver multicastId receiverId ^^ Suc n) d))
   \<and> receiverId \<notin> getReceivers multicastId
       (snd (unregisterMulticastReceiver multicastId receiverId
          ((registerMulticastReceiver multicastId receiverId ^^ n) d)))"
proof -
  have member: "receiverId \<in> getReceivers multicastId
      ((registerMulticastReceiver multicastId receiverId ^^ Suc n) d)"
    by (simp add: register_member)
  from member have "fst (unregisterMulticastReceiver multicastId receiverId
      ((registerMulticastReceiver multicastId receiverId ^^ Suc n) d))"
    by (rule unregister_reports_change)
  with member show ?thesis
    using unregister_removes by blast
qed

section \<open>Properties of ProxyBuilder\<close>

text \<open>
  C1 as the claim states it fails. On a builder that is shutting down, \<open>buildAsync\<close>
  calls \<open>onError\<close> with the message "required runtime has been already destroyed", not
  "runtime already destroyed", and then goes on: it creates an arbitrator, starts it and
  appends it to the builder's list.
\<close>

theorem buildAsync_shutting_down_example:
  "buildAsync exampleProxyType \<lparr>onSuccess = True, onError = True\<rparr>
     (exampleBuilder\<lparr>shuttingDown := True\<rparr>)
   = ([Caller_onError ''required runtime has been already destroyed'',
       ArbitratorFactory_createArbitrator
         (createArbitrator ''io.joynr'' ''system/Discovery''
            \<lparr>majorVersion = 0, minorVersion = 1\<rparr> 0
            \<lparr>discoveryTimeoutMs = 50, retryIntervalMs = 10\<rparr>),
       Arbitrator_startArbitration
         (createArbitrator ''io.joynr'' ''system/Discovery''
            \<lparr>majorVersion = 0, minorVersion = 1\<rparr> 0
            \<lparr>discoveryTimeoutMs = 50, retryIntervalMs = 10\<rparr>)],
      Some (exampleBuilder
        \<lparr>shuttingDown := True,
         arbitrators :=
           [createArbitrator ''io.joynr'' ''system/Discovery''
              \<lparr>majorVersion = 0, minorVersion = 1\<rparr> 0
              \<lparr>discoveryTimeoutMs = 50, retryIntervalMs = 10\<rparr>]\<rparr>))
   \<and> Caller_onError ''runtime already destroyed''
       \<notin> set (fst (buildAsync exampleProxyType \<lparr>onSuccess = True, onError = True\<rparr>
                      (exampleBuilder\<lparr>shuttingDown := True\<rparr>)))"
  by (simp add: buildAsync_def exampleBuilder_def exampleProxyType_def
      runtimeAlreadyDestroyed_def Let_def)

text \<open>
  C1, amended. For every call \<open>buildAsync(onSuccess, onError)\<close> with a callable
  \<open>onError\<close>: if the weak runtime reference cannot be upgraded or the builder is shutting
  down, the first thing the call does is to invoke \<open>onError\<close> with
  \<open>DiscoveryException("required runtime has been already destroyed")\<close>.
\<close>

theorem buildAsync_reports_destroyed_runtime:
  assumes "runtime b = None \<or> shuttingDown b" and "onError cb"
  shows "take 1 (fst (buildAsync T cb b))
         = [Caller_onError ''required runtime has been already destroyed'']"
  using assms by (auto simp: buildAsync_def runtimeAlreadyDestroyed_def Let_def)

text \<open>The amended C1 at a builder that is shutting down.\<close>

theorem buildAsync_reports_destroyed_runtime_witness:
  "shuttingDown (exampleBuilder\<lparr>shuttingDown := True\<rparr>)
   \<and> onError \<lparr>onSuccess = True, onError = True\<rparr>
   \<and> take 1 (fst (buildAsync exampleProxyType \<lparr>onSuccess = True, onError = True\<rparr>
                    (exampleBuilder\<lparr>shuttingDown := True\<rparr>)))
     = [Caller_onError ''required runtime has been already destroyed'']"
  using buildAsync_reports_destroyed_runtime
    [of "exampleBuilder\<lparr>shuttingDown := True\<rparr>" "\<lparr>onSuccess = True, onError = True\<rparr>"
        exampleProxyType]
  by simp

text \<open>
  C2 says that after \<open>stop()\<close> no \<open>buildAsync\<close> reaches \<open>ProxyFactory::createProxy\<close>. The
  code does not keep it: \<open>stop()\<close> sets \<open>shuttingDown\<close>, the next \<open>buildAsync\<close> reports
  the error to \<open>onError\<close> and, with no \<open>return\<close> after it, still creates and starts an
  arbitrator; when that arbitrator reports a provider, \<open>arbitrationSucceeds\<close> calls
  \<open>createProxy\<close> and registers the next hop.
\<close>

theorem buildAsync_after_stop_reaches_createProxy:
  "shuttingDown (snd (stop exampleBuilder))
   \<and> (\<exists>a b'. buildAsync exampleProxyType \<lparr>onSuccess = True, onError = True\<rparr>
                (snd (stop exampleBuilder))
              = ([Caller_onError runtimeAlreadyDestroyed,
                  ArbitratorFactory_createArbitrator a, Arbitrator_startArbitration a],
                 Some b')
            \<and> arbitrators b' = [a]
            \<and> fst (arbitrationSucceeds \<lparr>onSuccess = True, onError = True\<rparr> (Some b')
                      ''proxy-1'' exampleProvider)
              = [ProxyFactory_createProxy ''io.joynr'' \<lparr>ttl = 5000\<rparr>,
                 Proxy_handleArbitrationFinished exampleProvider,
                 MessageRouter_setToKnown ''provider-1'',
                 MessageRouter_addNextHop ''proxy-1'' ''dispatcher'' False
                   0x7FFFFFFFFFFFFFFF False])"
  by (simp add: buildAsync_def stop_def exampleBuilder_def exampleProxyType_def
      arbitrationSucceeds_def exampleProvider_def Let_def createProxy_def
      handleArbitrationFinished_def)

text \<open>
  C8 as the claim states it fails on the text of the message: the prefix the code puts
  before the router's message is "Proxy could not be added to parent router: ", with a
  capital P.
\<close>

theorem addNextHop_failure_message_example:
  "arbitrationSucceedsThenRouter \<lparr>onSuccess = True, onError = True\<rparr> (Some exampleBuilder)
     ''proxy-1'' exampleProvider (NextHopFailed ''no route'')
   = [ProxyFactory_createProxy ''io.joynr'' \<lparr>ttl = 5000\<rparr>,
      Proxy_handleArbitrationFinished exampleProvider,
      MessageRouter_setToKnown ''provider-1'',
      MessageRouter_addNextHop ''proxy-1'' ''dispatcher'' False 0x7FFFFFFFFFFFFFFF False,
      Caller_onError ''Proxy could not be added to parent router: no route'']
   \<and> Caller_onError (''proxy could not be added to parent router: '' @ ''no route'')
       \<notin> set (arbitrationSucceedsThenRouter \<lparr>onSuccess = True, onError = True\<rparr>
                 (Some exampleBuilder) ''proxy-1'' exampleProvider (NextHopFailed ''no route''))"
  by (simp add: arbitrationSucceedsThenRouter_def arbitrationSucceeds_def exampleBuilder_def
      exampleProvider_def addNextHopReplies_def onErrorAddNextHop_def createProxy_def
      handleArbitrationFinished_def Let_def)

lemma arbitrationSucceeds_live:
  assumes "runtime b = Some r" and "getParticipantId discoverEntry \<noteq> []"
  shows "arbitrationSucceeds cb (Some b) newParticipantId discoverEntry
         = ([ProxyFactory_createProxy (domain b) (messagingQos b),
             Proxy_handleArbitrationFinished discoverEntry,
             MessageRouter_setToKnown (getParticipantId discoverEntry),
             MessageRouter_addNextHop newParticipantId (dispatcherAddress b)
               (\<not> getIsLocal discoverEntry) 0x7FFFFFFFFFFFFFFF False],
            Some (handleArbitrationFinished discoverEntry
                    (createProxy newParticipantId (domain b) (messagingQos b))))"
  using assms
  by (simp add: arbitrationSucceeds_def Let_def createProxy_def handleArbitrationFinished_def)

text \<open>
  C8, amended. Within a \<open>buildAsync\<close> attempt whose arbitration succeeded with a non-empty
  participantId, a live builder and a live runtime: if \<open>addNextHop\<close> reports failure and
  the caller's \<open>onError\<close> is callable, then after the calls of \<open>createProxy\<close>,
  \<open>handleArbitrationFinished\<close>, \<open>setToKnown\<close> and \<open>addNextHop\<close> the caller's \<open>onError\<close>
  receives a DiscoveryException whose message is the router's error message prefixed with
  "Proxy could not be added to parent router: "; and the caller's \<open>onSuccess\<close> is invoked
  only when \<open>addNextHop\<close> has reported success, with the created proxy, as the event right
  after the \<open>addNextHop\<close> call.
\<close>

theorem addNextHop_outcome_reaches_caller:
  assumes "runtime b = Some r" and "getParticipantId discoverEntry \<noteq> []"
  shows "(onError cb \<longrightarrow>
            arbitrationSucceedsThenRouter cb (Some b) newParticipantId discoverEntry
              (NextHopFailed message)
            = [ProxyFactory_createProxy (domain b) (messagingQos b),
               Proxy_handleArbitrationFinished discoverEntry,
               MessageRouter_setToKnown (getParticipantId discoverEntry),
               MessageRouter_addNextHop newParticipantId (dispatcherAddress b)
                 (\<not> getIsLocal discoverEntry) 0x7FFFFFFFFFFFFFFF False,
               Caller_onError (''Proxy could not be added to parent router: '' @ message)])
       \<and> (Caller_onSuccess p
             \<in> set (arbitrationSucceedsThenRouter cb (Some b) newParticipantId discoverEntry reply)
           \<longrightarrow> reply = NextHopAdded
               \<and> p = handleArbitrationFinished discoverEntry
                       (createProxy newParticipantId (domain b) (messagingQos b))
               \<and> (\<exists>before.
                     arbitrationSucceedsThenRouter cb (Some b) newParticipantId discoverEntry reply
                     = before
                       @ [MessageRouter_addNextHop newParticipantId (dispatcherAddress b)
                            (\<not> getIsLocal discoverEntry) 0x7FFFFFFFFFFFFFFF False,
                          Caller_onSuccess p]))"
proof (intro conjI impI)
  assume "onError cb"
  then show "arbitrationSucceedsThenRouter cb (Some b) newParticipantId discoverEntry
               (NextHopFailed message)
             = [ProxyFactory_createProxy (domain b) (messagingQos b),
                Proxy_handleArbitrationFinished discoverEntry,
                MessageRouter_setToKnown (getParticipantId discoverEntry),
                MessageRouter_addNextHop newParticipantId (dispatcherAddress b)
                  (\<not> getIsLocal discoverEntry) 0x7FFFFFFFFFFFFFFF False,
                Caller_onError (''Proxy could not be added to parent router: '' @ message)]"
    by (simp add: arbitrationSucceedsThenRouter_def arbitrationSucceeds_live [OF assms]
        addNextHopReplies_def onErrorAddNextHop_def)
next
  assume mem: "Caller_onSuccess p
    \<in> set (arbitrationSucceedsThenRouter cb (Some b) newParticipantId discoverEntry reply)"
  have tr: "arbitrationSucceedsThenRouter cb (Some b) newParticipantId discoverEntry reply
        = [ProxyFactory_createProxy (domain b) (messagingQos b),
           Proxy_handleArbitrationFinished discoverEntry,
           MessageRouter_setToKnown (getParticipantId discoverEntry),
           MessageRouter_addNextHop newParticipantId (dispatcherAddress b)
             (\<not> getIsLocal discoverEntry) 0x7FFFFFFFFFFFFFFF False]
          @ addNextHopReplies cb
              (handleArbitrationFinished discoverEntry
                 (createProxy newParticipantId (domain b) (messagingQos b))) reply"
    by (simp add: arbitrationSucceedsThenRouter_def arbitrationSucceeds_live [OF assms])
  from mem have rep: "Caller_onSuccess p
      \<in> set (addNextHopReplies cb
              (handleArbitrationFinished discoverEntry
                 (createProxy newParticipantId (domain b) (messagingQos b))) reply)"
    unfolding tr by simp
  then have r: "reply = NextHopAdded"
    and p: "p = handleArbitrationFinished discoverEntry
                  (createProxy newParticipantId (domain b) (messagingQos b))"
    and s: "onSuccess cb"
    by (auto simp: addNextHopReplies_def onSuccessAddNextHop_def onErrorAddNextHop_def
        split: addNextHopReply.splits if_splits)
  show "reply = NextHopAdded" by (rule r)
  show "p = handleArbitrationFinished discoverEntry
              (createProxy newParticipantId (domain b) (messagingQos b))" by (rule p)
  show "\<exists>before.
          arbitrationSucceedsThenRouter cb (Some b) newParticipantId discoverEntry reply
          = before
            @ [MessageRouter_addNextHop newParticipantId (dispatcherAddress b)
                 (\<not> getIsLocal discoverEntry) 0x7FFFFFFFFFFFFFFF False,
               Caller_onSuccess p]"
    unfolding tr using r p s
    by (simp add: addNextHopReplies_def onSuccessAddNextHop_def)
qed

text \<open>
  The amended C8 at the example builder: a failing router, and a succeeding one whose
  success reaches \<open>onSuccess\<close>.
\<close>

theorem addNextHop_outcome_reaches_caller_witness:
  "runtime exampleBuilder = Some JoynrRuntimeImpl
   \<and> getParticipantId exampleProvider \<noteq> []
   \<and> onError \<lparr>onSuccess = True, onError = True\<rparr>
   \<and> arbitrationSucceedsThenRouter \<lparr>onSuccess = True, onError = True\<rparr> (Some exampleBuilder)
       ''proxy-1'' exampleProvider (NextHopFailed ''no route'')
     = [ProxyFactory_createProxy ''io.joynr'' \<lparr>ttl = 5000\<rparr>,
        Proxy_handleArbitrationFinished exampleProvider,
        MessageRouter_setToKnown ''provider-1'',
        MessageRouter_addNextHop ''proxy-1'' ''dispatcher'' False 0x7FFFFFFFFFFFFFFF False,
        Caller_onError ''Proxy could not be added to parent router: no route'']
   \<and> Caller_onSuccess (handleArbitrationFinished exampleProvider
                          (createProxy ''proxy-1'' ''io.joynr'' \<lparr>ttl = 5000\<rparr>))
       \<in> set (arbitrationSucceedsThenRouter \<lparr>onSuccess = True, onError = True\<rparr>
                 (Some exampleBuilder) ''proxy-1'' exampleProvider NextHopAdded)"
  using addNextHop_outcome_reaches_caller
    [of exampleBuilder JoynrRuntimeImpl exampleProvider "\<lparr>onSuccess = True, onError = True\<rparr>"
        "''proxy-1''" "''no route''"
        "handleArbitrationFinished exampleProvider
           (createProxy ''proxy-1'' ''io.joynr'' \<lparr>ttl = 5000\<rparr>)"
        NextHopAdded]
  by (simp add: arbitrationSucceedsThenRouter_def arbitrationSucceeds_def exampleBuilder_def
      exampleProvider_def addNextHopReplies_def onErrorAddNextHop_def onSuccessAddNextHop_def
      createProxy_def handleArbitrationFinished_def Let_def)

section \<open>Properties of LocalDiscoveryAggregator\<close>

text \<open>
  C5. Every entry that a lookup of the aggregator returns (by domain and interface, or by
  participantId) for a participant that the request-caller directory contains has the
  in-process tag as the first element of its connections. A lookup returns entries when
  it writes its result: the lookup by domain and interface with a remote proxy installed,
  the lookup by participantId for a provisioned id or with a remote proxy installed.
\<close>

theorem lookup_annotates_local_participants:
  "(discoveryProxy agg \<noteq> None \<longrightarrow>
      (\<forall>e \<in> set (result (lookup I st res d i q agg)).
         containsRequestCaller (requestCallerDirectory agg) (getParticipantId e)
         \<longrightarrow> (\<exists>others. getConnections e = IN_PROCESS # others)))
   \<and> (provisionedDiscoveryEntries agg p \<noteq> None \<or> discoveryProxy agg \<noteq> None \<longrightarrow>
        containsRequestCaller (requestCallerDirectory agg)
          (getParticipantId (result (lookup_participantId I st r0 p agg)))
        \<longrightarrow> (\<exists>others. getConnections (result (lookup_participantId I st r0 p agg))
                        = IN_PROCESS # others))"
  by (auto simp: lookup_def lookup_participantId_def
      checkForLocalAvailabilityAndAddInProcessConnection_def
      split: option.splits prod.splits if_splits)

text \<open>
  C5 at the example aggregator, whose directory contains the example provider and the
  discovery service: both lookups of the provider and the lookup of the provisioned
  discovery entry return connections that start with the in-process tag.
\<close>

theorem lookup_annotates_local_participants_witness:
  "discoveryProxy exampleAggregator \<noteq> None
   \<and> containsRequestCaller (requestCallerDirectory exampleAggregator) ''ParticipantID.A''
   \<and> result (lookup (exampleRemote :: (DiscoveryEntry list, unit) IDiscoverySync) exampleStatus
               [] ''Domain.A'' ''InterfaceName.A'' () exampleAggregator)
     = [exampleEntry\<lparr>getConnections := [IN_PROCESS, JOYNR]\<rparr>]
   \<and> result (lookup_participantId (exampleRemote :: (DiscoveryEntry list, unit) IDiscoverySync)
               exampleStatus exampleEntry ''ParticipantID.A'' exampleAggregator)
     = exampleEntry\<lparr>getConnections := [IN_PROCESS, JOYNR]\<rparr>
   \<and> (\<exists>others. getConnections
         (result (lookup_participantId (exampleRemote :: (DiscoveryEntry list, unit) IDiscoverySync)
                    exampleStatus exampleEntry ''cc.discovery'' exampleAggregator))
       = IN_PROCESS # others)"
  using lookup_annotates_local_participants
    [of exampleAggregator "exampleRemote :: (DiscoveryEntry list, unit) IDiscoverySync"
        exampleStatus "[]" "''Domain.A''" "''InterfaceName.A''" "()" "''cc.discovery''"
        exampleEntry]
  by (simp add: exampleAggregator_def setDiscoveryProxy_def freshAggregator_def newLocalDiscoveryAggregator_def exampleSettings_def
      exampleInterfaces_def exampleStatus_def exampleEntry_def
      exampleRemote_def lookup_def lookup_participantId_def checkForLocalAvailabilityAndAddInProcessConnection_def
      containsRequestCaller_def createStd_def setCode_def Let_def)

text \<open>
  C6 as the claim states it fails: the entry returned for a provisioned id is not always
  the provisioned entry. The directory of the example aggregator contains the discovery
  service's id, and the lookup returns the provisioned entry with the in-process tag put
  before its connections.
\<close>

theorem provisioned_lookup_is_annotated_example:
  "provisionedDiscoveryEntries exampleAggregator ''cc.discovery''
   = Some \<lparr>getDomain = ''io.joynr.system'', getInterfaceName = ''system/Discovery'',
           getParticipantId = ''cc.discovery'',
           getQos = \<lparr>customParameters = [], priority = 0, scope = GLOBAL,
                      supportsOnChangeSubscriptions = False\<rparr>,
           getConnections = [JOYNR]\<rparr>
   \<and> result (lookup_participantId (exampleRemote :: (DiscoveryEntry list, unit) IDiscoverySync)
               exampleStatus exampleEntry ''cc.discovery'' exampleAggregator)
     = \<lparr>getDomain = ''io.joynr.system'', getInterfaceName = ''system/Discovery'',
        getParticipantId = ''cc.discovery'',
        getQos = \<lparr>customParameters = [], priority = 0, scope = GLOBAL,
                   supportsOnChangeSubscriptions = False\<rparr>,
        getConnections = [IN_PROCESS, JOYNR]\<rparr>
   \<and> Some (result (lookup_participantId
                     (exampleRemote :: (DiscoveryEntry list, unit) IDiscoverySync)
                     exampleStatus exampleEntry ''cc.discovery'' exampleAggregator))
     \<noteq> provisionedDiscoveryEntries exampleAggregator ''cc.discovery''"
  by (simp add: exampleAggregator_def setDiscoveryProxy_def freshAggregator_def newLocalDiscoveryAggregator_def exampleSettings_def
      exampleInterfaces_def exampleStatus_def exampleEntry_def
      exampleRemote_def lookup_participantId_def checkForLocalAvailabilityAndAddInProcessConnection_def
      containsRequestCaller_def createStd_def setCode_def Let_def)

text \<open>
  C6, amended. For every participantId \<open>p\<close> in the provisioned-entries map,
  \<open>lookup(p)\<close> sets the status code to OK and returns the provisioned entry, with the
  in-process tag put before its connections when the request-caller directory contains the
  entry's participantId, without invoking any operation of the remote discovery proxy and
  without changing the aggregator. For every \<open>p\<close> not provisioned, with a proxy
  installed, the lookup is forwarded to the remote proxy: that is its one remote call, the
  status is the proxy's, and the result is the proxy's entry with the same in-process
  annotation.
\<close>

theorem lookup_participantId_provisioned_or_forwarded:
  "(provisionedDiscoveryEntries agg p = Some e \<longrightarrow>
      lookup_participantId I st r0 p agg
      = \<lparr>status = st\<lparr>code := OK\<rparr>,
         result =
           (if containsRequestCaller (requestCallerDirectory agg) (getParticipantId e)
            then e\<lparr>getConnections := IN_PROCESS # getConnections e\<rparr> else e),
         self = agg, remoteCalls = []\<rparr>)
   \<and> (provisionedDiscoveryEntries agg p = None \<and> discoveryProxy agg = Some x \<longrightarrow>
        remoteCalls (lookup_participantId I st r0 p agg) = [Remote_lookup_participantId p]
        \<and> status (lookup_participantId I st r0 p agg)
          = fst (fst (proxy_lookup_participantId I st r0 p x))
        \<and> result (lookup_participantId I st r0 p agg)
          = checkForLocalAvailabilityAndAddInProcessConnection agg
              (snd (fst (proxy_lookup_participantId I st r0 p x)))
        \<and> self (lookup_participantId I st r0 p agg)
          = agg\<lparr>discoveryProxy := Some (snd (proxy_lookup_participantId I st r0 p x))\<rparr>)"
  by (simp add: lookup_participantId_def createStd_def setCode_def
      checkForLocalAvailabilityAndAddInProcessConnection_def split: prod.splits)

text \<open>
  The amended C6 at the example aggregator: the provisioned routing entry is served
  locally, the example provider's id is forwarded.
\<close>

theorem lookup_participantId_provisioned_or_forwarded_witness:
  "provisionedDiscoveryEntries exampleAggregator ''cc.routing''
   = Some \<lparr>getDomain = ''io.joynr.system'', getInterfaceName = ''system/Routing'',
           getParticipantId = ''cc.routing'',
           getQos = \<lparr>customParameters = [], priority = 0, scope = GLOBAL,
                      supportsOnChangeSubscriptions = False\<rparr>,
           getConnections = [JOYNR]\<rparr>
   \<and> lookup_participantId (exampleRemote :: (DiscoveryEntry list, unit) IDiscoverySync)
       exampleStatus exampleEntry ''cc.routing'' exampleAggregator
     = \<lparr>status = \<lparr>code = OK, description = []\<rparr>,
        result = \<lparr>getDomain = ''io.joynr.system'', getInterfaceName = ''system/Routing'',
                  getParticipantId = ''cc.routing'',
                  getQos = \<lparr>customParameters = [], priority = 0, scope = GLOBAL,
                             supportsOnChangeSubscriptions = False\<rparr>,
                  getConnections = [IN_PROCESS, JOYNR]\<rparr>,
        self = exampleAggregator, remoteCalls = []\<rparr>
   \<and> provisionedDiscoveryEntries exampleAggregator ''ParticipantID.A'' = None
   \<and> discoveryProxy exampleAggregator = Some [exampleEntry]
   \<and> remoteCalls (lookup_participantId
                    (exampleRemote :: (DiscoveryEntry list, unit) IDiscoverySync)
                    exampleStatus exampleEntry ''ParticipantID.A'' exampleAggregator)
     = [Remote_lookup_participantId ''ParticipantID.A'']"
  using lookup_participantId_provisioned_or_forwarded
    [of exampleAggregator "''cc.routing''"
        "\<lparr>getDomain = ''io.joynr.system'', getInterfaceName = ''system/Routing'',
          getParticipantId = ''cc.routing'',
          getQos = \<lparr>customParameters = [], priority = 0, scope = GLOBAL,
                     supportsOnChangeSubscriptions = False\<rparr>,
          getConnections = [JOYNR]\<rparr>"
        "exampleRemote :: (DiscoveryEntry list, unit) IDiscoverySync" exampleStatus exampleEntry]
    lookup_participantId_provisioned_or_forwarded
    [of exampleAggregator "''ParticipantID.A''" _
        "exampleRemote :: (DiscoveryEntry list, unit) IDiscoverySync" exampleStatus exampleEntry
        "[exampleEntry]"]
  by (simp add: exampleAggregator_def setDiscoveryProxy_def freshAggregator_def newLocalDiscoveryAggregator_def exampleSettings_def
      exampleInterfaces_def exampleStatus_def exampleEntry_def
      exampleRemote_def lookup_participantId_def checkForLocalAvailabilityAndAddInProcessConnection_def
      containsRequestCaller_def createStd_def setCode_def Let_def)

text \<open>
  C7 as the claim states it fails on the text of the description: what the aggregator
  appends is "LocalDiscoveryAggregator: discoveryProxy not set. Couldn't reach local
  capabilitites directory.", and the description of the claim is not in the list.
\<close>

theorem add_without_proxy_description_example:
  "description (status (add (exampleRemote :: (DiscoveryEntry list, unit) IDiscoverySync)
      exampleStatus exampleEntry freshAggregator))
   = [''LocalDiscoveryAggregator: discoveryProxy not set. Couldn't reach local capabilitites directory.'']
   \<and> ''discoveryProxy not set. Couldn't reach local capabilities directory.''
       \<notin> set (description (status (add (exampleRemote :: (DiscoveryEntry list, unit) IDiscoverySync)
                 exampleStatus exampleEntry freshAggregator)))"
  by (simp add: freshAggregator_def newLocalDiscoveryAggregator_def exampleSettings_def
      exampleInterfaces_def exampleStatus_def exampleEntry_def
      add_def setCode_def addDescription_def discoveryProxyNotSet_def Let_def)

text \<open>
  C7, amended. For every call to \<open>add\<close>, \<open>lookup(domain, interfaceName, qos)\<close> or
  \<open>remove\<close> made while no remote discovery proxy is installed, the operation sets the
  status code to ERROR and appends the description "LocalDiscoveryAggregator:
  discoveryProxy not set. Couldn't reach local capabilitites directory." (the text of the
  source), makes no call on a remote proxy, leaves the aggregator unchanged and, for the
  lookup, leaves the result as the caller passed it.
\<close>

theorem operations_without_proxy:
  assumes "discoveryProxy agg = None"
  shows "add I st e agg
         = \<lparr>status = st\<lparr>code := ERROR, description := description st @
               [''LocalDiscoveryAggregator: discoveryProxy not set. Couldn't reach local capabilitites directory.'']\<rparr>,
            result = (), self = agg, remoteCalls = []\<rparr>
       \<and> lookup I st res d i q agg
         = \<lparr>status = st\<lparr>code := ERROR, description := description st @
               [''LocalDiscoveryAggregator: discoveryProxy not set. Couldn't reach local capabilitites directory.'']\<rparr>,
            result = res, self = agg, remoteCalls = []\<rparr>
       \<and> remove I st p agg
         = \<lparr>status = st\<lparr>code := ERROR, description := description st @
               [''LocalDiscoveryAggregator: discoveryProxy not set. Couldn't reach local capabilitites directory.'']\<rparr>,
            result = (), self = agg, remoteCalls = []\<rparr>"
  using assms
  by (simp add: add_def lookup_def remove_def setCode_def addDescription_def
      discoveryProxyNotSet_def)

text \<open>The amended C7 at the aggregator as its constructor leaves it.\<close>

theorem operations_without_proxy_witness:
  "discoveryProxy freshAggregator = None
   \<and> status (add (exampleRemote :: (DiscoveryEntry list, unit) IDiscoverySync) exampleStatus
               exampleEntry freshAggregator)
     = \<lparr>code = ERROR, description =
          [''LocalDiscoveryAggregator: discoveryProxy not set. Couldn't reach local capabilitites directory.'']\<rparr>
   \<and> result (lookup (exampleRemote :: (DiscoveryEntry list, unit) IDiscoverySync) exampleStatus
               [] ''Domain.A'' ''InterfaceName.A'' () freshAggregator) = []
   \<and> self (remove (exampleRemote :: (DiscoveryEntry list, unit) IDiscoverySync) exampleStatus
             ''ParticipantID.A'' freshAggregator) = freshAggregator"
  using operations_without_proxy
    [of freshAggregator "exampleRemote :: (DiscoveryEntry list, unit) IDiscoverySync"
        exampleStatus exampleEntry "[]" "''Domain.A''" "''InterfaceName.A''" "()"
        "''ParticipantID.A''"]
  by (simp add: freshAggregator_def newLocalDiscoveryAggregator_def exampleStatus_def Let_def)

text \<open>
  C10 as the claim states it fails in one point: with no proxy ever installed the lookup
  of a provisioned id does succeed, but what it returns is not always the provisioned
  entry. The directory of the fresh aggregator contains the routing service's id, and the
  entry returned has the in-process tag before the provisioned connections.
\<close>

theorem provisioned_lookup_without_proxy_example:
  "discoveryProxy freshAggregator = None
   \<and> provisionedDiscoveryEntries freshAggregator ''cc.routing''
     = Some \<lparr>getDomain = ''io.joynr.system'', getInterfaceName = ''system/Routing'',
             getParticipantId = ''cc.routing'',
             getQos = \<lparr>customParameters = [], priority = 0, scope = GLOBAL,
                        supportsOnChangeSubscriptions = False\<rparr>,
             getConnections = [JOYNR]\<rparr>
   \<and> getConnections (result (lookup_participantId
         (exampleRemote :: (DiscoveryEntry list, unit) IDiscoverySync)
         exampleStatus exampleEntry ''cc.routing'' freshAggregator))
     = [IN_PROCESS, JOYNR]
   \<and> Some (result (lookup_participantId
                     (exampleRemote :: (DiscoveryEntry list, unit) IDiscoverySync)
                     exampleStatus exampleEntry ''cc.routing'' freshAggregator))
     \<noteq> provisionedDiscoveryEntries freshAggregator ''cc.routing''"
  by (simp add: freshAggregator_def newLocalDiscoveryAggregator_def exampleSettings_def
      exampleInterfaces_def exampleStatus_def exampleEntry_def
      lookup_participantId_def checkForLocalAvailabilityAndAddInProcessConnection_def
      containsRequestCaller_def createStd_def setCode_def Let_def)

text \<open>
  C10, amended. While no remote proxy is installed (\<open>setDiscoveryProxy\<close> was never
  called), \<open>lookup(p)\<close> for a provisioned participantId \<open>p\<close> sets the status code to OK,
  adds no description, makes no remote call and returns the provisioned entry, with the
  in-process tag put before its connections when the request-caller directory contains the
  entry's participantId. The missing-proxy error branch is taken only for ids that are not
  provisioned: a status that was OK and comes back as ERROR means that \<open>p\<close> is not
  provisioned, and for such a \<open>p\<close> the status gets code ERROR and the missing-proxy
  description, and the result stays as the caller passed it. The constructor leaves the
  aggregator in this state, without a proxy, and provisions the routing and the discovery
  service.
\<close>

theorem provisioned_lookup_needs_no_proxy:
  assumes "discoveryProxy agg = None"
  shows "(provisionedDiscoveryEntries agg p = Some e \<longrightarrow>
            status (lookup_participantId I st r0 p agg) = st\<lparr>code := OK\<rparr>
            \<and> result (lookup_participantId I st r0 p agg)
              = (if containsRequestCaller (requestCallerDirectory agg) (getParticipantId e)
                 then e\<lparr>getConnections := IN_PROCESS # getConnections e\<rparr> else e)
            \<and> remoteCalls (lookup_participantId I st r0 p agg) = [])
       \<and> (code (status (lookup_participantId I st r0 p agg)) = ERROR \<and> code st = OK
          \<longrightarrow> provisionedDiscoveryEntries agg p = None)
       \<and> (provisionedDiscoveryEntries agg p = None \<longrightarrow>
            status (lookup_participantId I st r0 p agg)
            = st\<lparr>code := ERROR, description := description st @
                 [''LocalDiscoveryAggregator: discoveryProxy not set. Couldn't reach local capabilitites directory.'']\<rparr>
            \<and> result (lookup_participantId I st r0 p agg) = r0)
       \<and> discoveryProxy
            (newLocalDiscoveryAggregator dir settings ifs :: 'a LocalDiscoveryAggregator) = None
       \<and> provisionedDiscoveryEntries
            (newLocalDiscoveryAggregator dir settings ifs :: 'a LocalDiscoveryAggregator)
            (getCcRoutingProviderParticipantId settings) \<noteq> None
       \<and> provisionedDiscoveryEntries
            (newLocalDiscoveryAggregator dir settings ifs :: 'a LocalDiscoveryAggregator)
            (getCcDiscoveryProviderParticipantId settings) \<noteq> None"
proof -
  have fresh: "discoveryProxy
        (newLocalDiscoveryAggregator dir settings ifs :: 'a LocalDiscoveryAggregator) = None
      \<and> provisionedDiscoveryEntries
          (newLocalDiscoveryAggregator dir settings ifs :: 'a LocalDiscoveryAggregator)
          (getCcRoutingProviderParticipantId settings) \<noteq> None
      \<and> provisionedDiscoveryEntries
          (newLocalDiscoveryAggregator dir settings ifs :: 'a LocalDiscoveryAggregator)
          (getCcDiscoveryProviderParticipantId settings) \<noteq> None"
    by (simp add: newLocalDiscoveryAggregator_def Let_def)
  have served: "provisionedDiscoveryEntries agg p = Some e \<longrightarrow>
      status (lookup_participantId I st r0 p agg) = st\<lparr>code := OK\<rparr>
      \<and> result (lookup_participantId I st r0 p agg)
        = (if containsRequestCaller (requestCallerDirectory agg) (getParticipantId e)
           then e\<lparr>getConnections := IN_PROCESS # getConnections e\<rparr> else e)
      \<and> remoteCalls (lookup_participantId I st r0 p agg) = []"
    by (simp add: lookup_participantId_def createStd_def setCode_def
        checkForLocalAvailabilityAndAddInProcessConnection_def)
  have missing: "provisionedDiscoveryEntries agg p = None \<longrightarrow>
      status (lookup_participantId I st r0 p agg)
      = st\<lparr>code := ERROR, description := description st @
           [''LocalDiscoveryAggregator: discoveryProxy not set. Couldn't reach local capabilitites directory.'']\<rparr>
      \<and> result (lookup_participantId I st r0 p agg) = r0"
    using assms
    by (simp add: lookup_participantId_def setCode_def addDescription_def
        discoveryProxyNotSet_def)
  have only: "code (status (lookup_participantId I st r0 p agg)) = ERROR \<and> code st = OK
      \<longrightarrow> provisionedDiscoveryEntries agg p = None"
    by (cases "provisionedDiscoveryEntries agg p")
      (simp_all add: lookup_participantId_def setCode_def)
  from served only missing fresh show ?thesis by blast
qed

text \<open>
  The amended C10 at the aggregator as its constructor leaves it: the discovery service
  resolves with status OK, the example provider's id runs into the missing proxy.
\<close>

theorem provisioned_lookup_needs_no_proxy_witness:
  "discoveryProxy freshAggregator = None
   \<and> provisionedDiscoveryEntries freshAggregator ''cc.discovery''
     = Some \<lparr>getDomain = ''io.joynr.system'', getInterfaceName = ''system/Discovery'',
             getParticipantId = ''cc.discovery'',
             getQos = \<lparr>customParameters = [], priority = 0, scope = GLOBAL,
                        supportsOnChangeSubscriptions = False\<rparr>,
             getConnections = [JOYNR]\<rparr>
   \<and> status (lookup_participantId (exampleRemote :: (DiscoveryEntry list, unit) IDiscoverySync)
               exampleStatus exampleEntry ''cc.discovery'' freshAggregator)
     = \<lparr>code = OK, description = []\<rparr>
   \<and> getParticipantId (result (lookup_participantId
         (exampleRemote :: (DiscoveryEntry list, unit) IDiscoverySync)
         exampleStatus exampleEntry ''cc.discovery'' freshAggregator)) = ''cc.discovery''
   \<and> provisionedDiscoveryEntries freshAggregator ''ParticipantID.A'' = None
   \<and> code (status (lookup_participantId
         (exampleRemote :: (DiscoveryEntry list, unit) IDiscoverySync)
         exampleStatus exampleEntry ''ParticipantID.A'' freshAggregator)) = ERROR"
  using provisioned_lookup_needs_no_proxy
    [of freshAggregator "''cc.discovery''"
        "\<lparr>getDomain = ''io.joynr.system'', getInterfaceName = ''system/Discovery'',
          getParticipantId = ''cc.discovery'',
          getQos = \<lparr>customParameters = [], priority = 0, scope = GLOBAL,
                     supportsOnChangeSubscriptions = False\<rparr>,
          getConnections = [JOYNR]\<rparr>"
        "exampleRemote :: (DiscoveryEntry list, unit) IDiscoverySync" exampleStatus exampleEntry]
    provisioned_lookup_needs_no_proxy
    [of freshAggregator "''ParticipantID.A''" _
        "exampleRemote :: (DiscoveryEntry list, unit) IDiscoverySync" exampleStatus exampleEntry]
  by (simp add: freshAggregator_def newLocalDiscoveryAggregator_def exampleSettings_def
      exampleInterfaces_def exampleStatus_def exampleEntry_def
      lookup_participantId_def checkForLocalAvailabilityAndAddInProcessConnection_def
      containsRequestCaller_def createStd_def setCode_def
      addDescription_def discoveryProxyNotSet_def Let_def)

end
